theory Spec2Isabelle
  imports Complex_Main
begin

section \<open>Python values used by the generator\<close>

text \<open>
  The development embeds \<^verbatim>\<open>src/generate_llmr.py\<close> (and the hash provider of
  \<^verbatim>\<open>src/embedding_integration.py\<close>). Python \<^verbatim>\<open>str\<close> values are modelled as
  \<^typ>\<open>string\<close>, one \<^typ>\<open>char\<close> per code point, so the model covers text whose code
  points are below 256; \<^verbatim>\<open>len\<close> and slicing count code points, as \<^const>\<open>length\<close> and
  \<^const>\<open>take\<close> count characters. A value that may be \<^verbatim>\<open>None\<close> is a
  \<^typ>\<open>string option\<close>.
\<close>

datatype py_error = AttributeError | TypeError | KeyError | IndexError | NameError
  | JSONDecodeError | RecursionError | ValueError

type_synonym pyval = "string option"

subsection \<open>String methods\<close>

definition is_space :: "char \<Rightarrow> bool" where
  \<comment> \<open>\<^verbatim>\<open>str.isspace\<close> on the code points below 256\<close>
  "is_space c = (let n = (of_char c :: nat) in
     (9 \<le> n \<and> n \<le> 13) \<or> (28 \<le> n \<and> n \<le> 32) \<or> n = 133 \<or> n = 160)"

definition strip :: "string \<Rightarrow> string" where
  "strip s = rev (dropWhile is_space (rev (dropWhile is_space s)))"

definition lower_char :: "char \<Rightarrow> char" where
  \<comment> \<open>\<^verbatim>\<open>str.lower\<close> on the code points below 256\<close>
  "lower_char c = (let n = (of_char c :: nat) in
     if (65 \<le> n \<and> n \<le> 90) \<or> (192 \<le> n \<and> n \<le> 214) \<or> (216 \<le> n \<and> n \<le> 222)
     then char_of (n + 32) else c)"

definition lower :: "string \<Rightarrow> string" where
  "lower s = map lower_char s"

fun join :: "string \<Rightarrow> string list \<Rightarrow> string" where
  "join sep [] = []"
| "join sep [x] = x"
| "join sep (x # y # ys) = x @ sep @ join sep (y # ys)"

fun split_on :: "char \<Rightarrow> string \<Rightarrow> string list" where
  \<comment> \<open>\<^verbatim>\<open>s.split(c)\<close> for a one-character separator: empty pieces are kept\<close>
  "split_on c [] = [[]]"
| "split_on c (x # xs) =
     (if x = c then [] # split_on c xs
      else (case split_on c xs of [] \<Rightarrow> [[x]] | w # ws \<Rightarrow> (x # w) # ws))"

fun split_ws_acc :: "string \<Rightarrow> string \<Rightarrow> string list" where
  "split_ws_acc w [] = (if w = [] then [] else [w])"
| "split_ws_acc w (c # cs) =
     (if is_space c then (if w = [] then split_ws_acc [] cs else w # split_ws_acc [] cs)
      else split_ws_acc (w @ [c]) cs)"

definition split_ws :: "string \<Rightarrow> string list" where
  \<comment> \<open>\<^verbatim>\<open>s.split()\<close>: the runs of non-whitespace characters\<close>
  "split_ws s = split_ws_acc [] s"

fun starts_with :: "string \<Rightarrow> string \<Rightarrow> bool" where
  "starts_with s [] = True"
| "starts_with [] (p # ps) = False"
| "starts_with (c # cs) (p # ps) = (c = p \<and> starts_with cs ps)"

fun str_contains :: "string \<Rightarrow> string \<Rightarrow> bool" where
  \<comment> \<open>\<^verbatim>\<open>needle in haystack\<close> on two strings\<close>
  "str_contains needle [] = (needle = [])"
| "str_contains needle (c # cs) = (starts_with (c # cs) needle \<or> str_contains needle cs)"

subsection \<open>Parsed JSON\<close>

text \<open>
  What \<^verbatim>\<open>json.loads\<close> returns: \<^verbatim>\<open>None\<close>, a bool, an int, a float (kept as the
  rational it denotes), a str, a list or a dict (its items in insertion order, keys distinct).
  The JSON reader itself is the standard library's; the handlers below take it as the
  parameter \<open>loads\<close>, which gives the value read or the exception raised:
  \<^verbatim>\<open>json.JSONDecodeError\<close> for a text that is not JSON, but also others, such as
  \<^verbatim>\<open>RecursionError\<close> for a text nested too deeply and a plain \<^verbatim>\<open>ValueError\<close> for
  an integer literal with too many digits.
\<close>

datatype json =
    JNull
  | JBool bool
  | JInt int
  | JFloat rat
  | JStr string
  | JArr "json list"
  | JObj "(string \<times> json) list"

type_synonym json_loads = "string \<Rightarrow> py_error + json"

fun py_in :: "string \<Rightarrow> json \<Rightarrow> py_error + bool" where
  \<comment> \<open>\<^verbatim>\<open>key in value\<close> for a str key: dict membership, list membership, substring test;
      any other value is not iterable\<close>
  "py_in k (JObj kvs) = Inr (k \<in> set (map fst kvs))"
| "py_in k (JArr xs) = Inr (JStr k \<in> set xs)"
| "py_in k (JStr s) = Inr (str_contains k s)"
| "py_in k JNull = Inl TypeError"
| "py_in k (JBool b) = Inl TypeError"
| "py_in k (JInt i) = Inl TypeError"
| "py_in k (JFloat r) = Inl TypeError"

fun py_getitem :: "json \<Rightarrow> string \<Rightarrow> py_error + json" where
  \<comment> \<open>\<^verbatim>\<open>value[key]\<close> for a str key: only a dict can be indexed by a str\<close>
  "py_getitem (JObj kvs) k = (case map_of kvs k of None \<Rightarrow> Inl KeyError | Some v \<Rightarrow> Inr v)"
| "py_getitem (JArr xs) k = Inl TypeError"
| "py_getitem (JStr s) k = Inl TypeError"
| "py_getitem JNull k = Inl TypeError"
| "py_getitem (JBool b) k = Inl TypeError"
| "py_getitem (JInt i) k = Inl TypeError"
| "py_getitem (JFloat r) k = Inl TypeError"

section \<open>UniversalHTMLParser\<close>

text \<open>
  \<^verbatim>\<open>HTMLParser.feed\<close> tokenises the text and calls the three handlers in document
  order; a document is modelled as the list of those calls. An attribute list is what
  \<^verbatim>\<open>HTMLParser\<close> passes: pairs of a name and a value, the value \<^verbatim>\<open>None\<close> for an
  attribute written without one.
\<close>

type_synonym attrs = "(string \<times> pyval) list"

datatype event = StartTag string attrs | EndTag string | Data string

definition attrs_dict :: "attrs \<Rightarrow> (string \<rightharpoonup> pyval)" where
  \<comment> \<open>\<^verbatim>\<open>dict(attrs)\<close>: the last pair of a repeated name wins\<close>
  "attrs_dict as = map_of (rev as)"

definition dict_get :: "(string \<rightharpoonup> pyval) \<Rightarrow> string \<Rightarrow> string \<Rightarrow> pyval" where
  \<comment> \<open>\<^verbatim>\<open>d.get(k, default)\<close>\<close>
  "dict_get d k dflt = (case d k of None \<Rightarrow> Some dflt | Some v \<Rightarrow> v)"

record link =
  link_url :: pyval
  link_text :: string
  link_rel :: pyval
  link_title :: pyval

record image =
  image_src :: pyval
  image_alt :: pyval
  image_title :: pyval

record video =
  video_src :: pyval
  video_poster :: pyval

record code_block =
  cb_tag :: string
  cb_content :: string

record microdata_item =
  item_type :: pyval
  item_properties :: "(pyval \<times> pyval) list"

record rdfa_item =
  rdfa_property :: pyval
  rdfa_typeof :: pyval
  rdfa_content :: pyval

datatype script_mode = NotInScript | InScript | InJsonLd

type_synonym heading_dict = "(string \<times> string list) list"

definition heading_get :: "heading_dict \<Rightarrow> string \<Rightarrow> string list" where
  \<comment> \<open>\<^verbatim>\<open>headings.get(tag, [])\<close>\<close>
  "heading_get hs tag = (case map_of hs tag of None \<Rightarrow> [] | Some v \<Rightarrow> v)"

definition heading_append :: "string \<Rightarrow> string \<Rightarrow> heading_dict \<Rightarrow> heading_dict" where
  \<comment> \<open>\<^verbatim>\<open>headings[tag].append(content)\<close>, called for a key of the dict only\<close>
  "heading_append tag content hs =
     map (\<lambda>(k, v). if k = tag then (k, v @ [content]) else (k, v)) hs"

record parser =
  title :: string
  description :: string
  meta_keywords :: "string list"
  author :: string
  language :: pyval
  canonical_url :: pyval
  headings :: heading_dict
  paragraphs :: "string list"
  links :: "link list"
  images :: "image list"
  videos :: "video list"
  code_blocks :: "code_block list"
  json_ld_data :: "json list"
  microdata_items :: "microdata_item list"
  rdfa_data :: "rdfa_item list"
  current_tag :: "string option"
  tag_stack :: "string list"
  in_script :: script_mode
  in_style :: bool
  current_content :: "string list"
  word_count :: nat
  estimated_read_time :: nat
  og_type :: "string option"

definition new_parser :: parser where
  \<comment> \<open>\<^verbatim>\<open>__init__\<close>; \<open>og_type\<close> is the attribute that \<^verbatim>\<open>_parse_meta_tag\<close> creates,
      \<^const>\<open>None\<close> while \<^verbatim>\<open>hasattr(self, 'og_type')\<close> is false\<close>
  "new_parser = \<lparr>
     title = [], description = [], meta_keywords = [], author = [], language = Some ''en'',
     canonical_url = Some [],
     headings = [(''h1'', []), (''h2'', []), (''h3'', []), (''h4'', []), (''h5'', []), (''h6'', [])],
     paragraphs = [], links = [], images = [], videos = [], code_blocks = [],
     json_ld_data = [], microdata_items = [], rdfa_data = [],
     current_tag = None, tag_stack = [], in_script = NotInScript, in_style = False,
     current_content = [], word_count = 0, estimated_read_time = 0, og_type = None \<rparr>"

subsection \<open>Start tags\<close>

definition str_lower :: "pyval \<Rightarrow> py_error + string" where
  \<comment> \<open>\<^verbatim>\<open>v.lower()\<close>: \<^verbatim>\<open>None\<close> has no such method\<close>
  "str_lower v = (case v of None \<Rightarrow> Inl AttributeError | Some s \<Rightarrow> Inr (lower s))"

definition parse_keywords :: "string \<Rightarrow> string list" where
  "parse_keywords content = filter (\<lambda>k. k \<noteq> []) (map strip (split_on CHR '','' content))"

definition parse_meta_tag :: "(string \<rightharpoonup> pyval) \<Rightarrow> parser \<Rightarrow> py_error + parser" where
  "parse_meta_tag d st =
    (case str_lower (dict_get d ''name'' []) of Inl e \<Rightarrow> Inl e | Inr name \<Rightarrow>
     case str_lower (dict_get d ''property'' []) of Inl e \<Rightarrow> Inl e | Inr property_name \<Rightarrow>
     case dict_get d ''content'' [] of None \<Rightarrow> Inr st | Some content \<Rightarrow>
       if content = [] then Inr st
       else if name = ''description'' \<or> property_name = ''og:description''
         then Inr (st\<lparr>description := content\<rparr>)
       else if name = ''keywords''
         then Inr (st\<lparr>meta_keywords := parse_keywords content\<rparr>)
       else if name = ''author'' \<or> property_name = ''article:author''
         then Inr (st\<lparr>author := content\<rparr>)
       else if property_name = ''og:title'' \<and> title st = []
         then Inr (st\<lparr>title := content\<rparr>)
       else if property_name = ''og:type''
         then (if og_type st = None then Inr (st\<lparr>og_type := Some content\<rparr>) else Inr st)
       else Inr st)"

definition parse_link_tag :: "(string \<rightharpoonup> pyval) \<Rightarrow> parser \<Rightarrow> parser" where
  "parse_link_tag d st =
    (if dict_get d ''rel'' [] = Some ''canonical''
     then st\<lparr>canonical_url := dict_get d ''href'' []\<rparr> else st)"

definition parse_microdata :: "(string \<rightharpoonup> pyval) \<Rightarrow> parser \<Rightarrow> parser" where
  "parse_microdata d st =
    (let props = (case d ''itemprop'' of None \<Rightarrow> []
                  | Some k \<Rightarrow> [(k, dict_get d ''content'' [])])
     in st\<lparr>microdata_items := microdata_items st @
          [\<lparr>item_type = dict_get d ''itemtype'' [], item_properties = props\<rparr>]\<rparr>)"

definition parse_rdfa :: "(string \<rightharpoonup> pyval) \<Rightarrow> parser \<Rightarrow> parser" where
  "parse_rdfa d st =
    st\<lparr>rdfa_data := rdfa_data st @
      [\<lparr>rdfa_property = dict_get d ''property'' [], rdfa_typeof = dict_get d ''typeof'' [],
        rdfa_content = dict_get d ''content'' []\<rparr>]\<rparr>"

definition starttag_dispatch :: "string \<Rightarrow> (string \<rightharpoonup> pyval) \<Rightarrow> parser \<Rightarrow> py_error + parser" where
  \<comment> \<open>the \<^verbatim>\<open>if/elif\<close> chain on the tag name\<close>
  "starttag_dispatch tag d st =
    (if tag = ''meta'' then parse_meta_tag d st
     else if tag = ''link'' then Inr (parse_link_tag d st)
     else if tag = ''a'' \<and> d ''href'' \<noteq> None
       then Inr (st\<lparr>links := links st @
              [\<lparr>link_url = the (d ''href''), link_text = [],
                link_rel = dict_get d ''rel'' [], link_title = dict_get d ''title'' []\<rparr>]\<rparr>)
     else if tag = ''img''
       then Inr (st\<lparr>images := images st @
              [\<lparr>image_src = dict_get d ''src'' [], image_alt = dict_get d ''alt'' [],
                image_title = dict_get d ''title'' []\<rparr>]\<rparr>)
     else if tag = ''video''
       then Inr (st\<lparr>videos := videos st @
              [\<lparr>video_src = dict_get d ''src'' [], video_poster = dict_get d ''poster'' []\<rparr>]\<rparr>)
     else if tag = ''script''
       then Inr (st\<lparr>in_script :=
              (if dict_get d ''type'' [] = Some ''application/ld+json'' then InJsonLd else InScript)\<rparr>)
     else if tag = ''style'' then Inr (st\<lparr>in_style := True\<rparr>)
     else if tag = ''pre'' \<or> tag = ''code''
       then Inr (st\<lparr>code_blocks := code_blocks st @ [\<lparr>cb_tag = tag, cb_content = []\<rparr>]\<rparr>)
     else Inr st)"

definition handle_starttag :: "string \<Rightarrow> attrs \<Rightarrow> parser \<Rightarrow> py_error + parser" where
  "handle_starttag tag as st =
    (let d = attrs_dict as;
         st1 = st\<lparr>current_tag := Some tag, tag_stack := tag_stack st @ [tag]\<rparr>
     in case starttag_dispatch tag d st1 of Inl e \<Rightarrow> Inl e | Inr st2 \<Rightarrow>
        let st3 = (if d ''itemscope'' \<noteq> None then parse_microdata d st2 else st2);
            st4 = (if d ''property'' \<noteq> None \<or> d ''typeof'' \<noteq> None \<or> d ''vocab'' \<noteq> None
                   then parse_rdfa d st3 else st3)
        in Inr (if tag = ''html'' \<and> d ''lang'' \<noteq> None
                then st4\<lparr>language := the (d ''lang'')\<rparr> else st4))"

subsection \<open>End tags and text\<close>

definition buffer_text :: "parser \<Rightarrow> string" where
  \<comment> \<open>\<^verbatim>\<open>" ".join(self.current_content).strip()\<close>\<close>
  "buffer_text st = strip (join '' '' (current_content st))"

definition set_last_text :: "string \<Rightarrow> link list \<Rightarrow> link list" where
  \<comment> \<open>\<^verbatim>\<open>self.links[-1]["text"] = s\<close>, called on a non-empty list only\<close>
  "set_last_text s ls = butlast ls @ [(last ls)\<lparr>link_text := s\<rparr>]"

definition set_last_content :: "string \<Rightarrow> code_block list \<Rightarrow> code_block list" where
  \<comment> \<open>\<^verbatim>\<open>self.code_blocks[-1]["content"] = s\<close>, called on a non-empty list only\<close>
  "set_last_content s bs = butlast bs @ [(last bs)\<lparr>cb_content := s\<rparr>]"

definition endtag_dispatch :: "json_loads \<Rightarrow> string \<Rightarrow> parser \<Rightarrow> py_error + parser" where
  \<comment> \<open>the \<^verbatim>\<open>if/elif\<close> chain of \<^verbatim>\<open>handle_endtag\<close>; \<^verbatim>\<open>except json.JSONDecodeError\<close>
      catches that exception only, any other one leaves the handler\<close>
  "endtag_dispatch loads tag st =
    (if tag \<in> set (map fst (headings st)) \<and> current_content st \<noteq> [] then
       (let content = buffer_text st;
            st1 = (if content \<noteq> []
                   then st\<lparr>headings := heading_append tag content (headings st)\<rparr>
                   else st)
        in Inr (st1\<lparr>current_content := []\<rparr>))
     else if tag = ''p'' \<and> current_content st \<noteq> [] then
       (let content = buffer_text st;
            st1 = (if content \<noteq> []
                   then st\<lparr>paragraphs := paragraphs st @ [content],
                           word_count := word_count st + length (split_ws content)\<rparr>
                   else st)
        in Inr (st1\<lparr>current_content := []\<rparr>))
     else if tag = ''a'' \<and> links st \<noteq> [] \<and> current_content st \<noteq> [] then
       Inr (st\<lparr>links := set_last_text (buffer_text st) (links st), current_content := []\<rparr>)
     else if (tag = ''pre'' \<or> tag = ''code'') \<and> code_blocks st \<noteq> [] then
       Inr (st\<lparr>code_blocks := set_last_content (buffer_text st) (code_blocks st),
              current_content := []\<rparr>)
     else if tag = ''script'' then
       (if in_script st = InJsonLd \<and> current_content st \<noteq> [] then
          (case loads (join '' '' (current_content st)) of
             Inr json_data \<Rightarrow>
               Inr (st\<lparr>json_ld_data := json_ld_data st @ [json_data],
                      in_script := NotInScript, current_content := []\<rparr>)
           | Inl e \<Rightarrow>
               if e = JSONDecodeError
               then Inr (st\<lparr>in_script := NotInScript, current_content := []\<rparr>)
               else Inl e)
        else Inr (st\<lparr>in_script := NotInScript, current_content := []\<rparr>))
     else if tag = ''style'' then Inr (st\<lparr>in_style := False, current_content := []\<rparr>)
     else Inr st)"

definition handle_endtag :: "json_loads \<Rightarrow> string \<Rightarrow> parser \<Rightarrow> py_error + parser" where
  "handle_endtag loads tag st =
    (let st1 = (if tag_stack st \<noteq> [] \<and> last (tag_stack st) = tag
                then st\<lparr>tag_stack := butlast (tag_stack st)\<rparr> else st)
     in case endtag_dispatch loads tag st1 of
          Inl e \<Rightarrow> Inl e
        | Inr st2 \<Rightarrow>
            Inr (st2\<lparr>current_tag :=
                   (if tag_stack st2 \<noteq> [] then Some (last (tag_stack st2)) else None)\<rparr>))"

definition capturing_tags :: "string list" where
  "capturing_tags = [''h1'', ''h2'', ''h3'', ''h4'', ''h5'', ''h6'', ''p'', ''a'', ''li'', ''pre'', ''code'']"

definition handle_data :: "string \<Rightarrow> parser \<Rightarrow> parser" where
  "handle_data raw st =
    (let data = strip raw in
     if data = [] \<or> in_style st then st
     else if in_script st \<noteq> NotInScript then st\<lparr>current_content := current_content st @ [data]\<rparr>
     else if current_tag st = Some ''title'' \<and> title st = [] then st\<lparr>title := data\<rparr>
     else if (case current_tag st of None \<Rightarrow> False | Some t \<Rightarrow> t \<in> set capturing_tags)
       then st\<lparr>current_content := current_content st @ [data]\<rparr>
     else st)"

definition calculate_read_time :: "parser \<Rightarrow> parser" where
  \<comment> \<open>\<^verbatim>\<open>round(self.word_count / 200)\<close> rounds the quotient to the nearest integer, a tie
      to the even one; the quotient of a count below \<open>2^53\<close> is near no tie unless it is one,
      so the float rounds as the exact quotient does\<close>
  "calculate_read_time st =
    (if word_count st > 0
     then st\<lparr>estimated_read_time :=
            max 1 (let q = word_count st div 200; r = word_count st mod 200
                   in if r < 100 then q else if r > 100 then q + 1
                      else if even q then q else q + 1)\<rparr>
     else st)"

subsection \<open>Feeding a document\<close>

definition handle_event :: "json_loads \<Rightarrow> event \<Rightarrow> parser \<Rightarrow> py_error + parser" where
  "handle_event loads ev st =
    (case ev of
       StartTag tag as \<Rightarrow> handle_starttag tag as st
     | EndTag tag \<Rightarrow> handle_endtag loads tag st
     | Data raw \<Rightarrow> Inr (handle_data raw st))"

fun feed :: "json_loads \<Rightarrow> event list \<Rightarrow> parser \<Rightarrow> py_error + parser" where
  "feed loads [] st = Inr st"
| "feed loads (ev # evs) st =
     (case handle_event loads ev st of Inl e \<Rightarrow> Inl e | Inr st' \<Rightarrow> feed loads evs st')"

definition parse_document :: "json_loads \<Rightarrow> event list \<Rightarrow> py_error + parser" where
  \<comment> \<open>\<^verbatim>\<open>_process_page\<close>: a fresh parser, \<^verbatim>\<open>feed\<close>, then \<^verbatim>\<open>calculate_read_time\<close>\<close>
  "parse_document loads evs =
    (case feed loads evs new_parser of Inl e \<Rightarrow> Inl e | Inr st \<Rightarrow> Inr (calculate_read_time st))"

section \<open>ContentTypeDetector\<close>

definition SCHEMA_TYPES :: "(string \<times> string list) list" where
  "SCHEMA_TYPES =
    [(''Article'', [''article'', ''blog'', ''post'', ''news'']),
     (''BlogPosting'', [''blog'', ''post'']),
     (''NewsArticle'', [''news'', ''press'']),
     (''Product'', [''product'', ''item'', ''shop'']),
     (''Event'', [''event'', ''conference'', ''meetup'']),
     (''Organization'', [''about'', ''company'', ''organization'']),
     (''Person'', [''profile'', ''author'', ''bio'']),
     (''WebPage'', [''page'']),
     (''HowTo'', [''tutorial'', ''guide'', ''howto'']),
     (''FAQPage'', [''faq'', ''questions'']),
     (''ContactPage'', [''contact'']),
     (''Recipe'', [''recipe'', ''cooking'']),
     (''VideoObject'', [''video'', ''watch'']),
     (''Course'', [''course'', ''training'', ''learn'']),
     (''JobPosting'', [''job'', ''career'', ''hiring'']),
     (''Review'', [''review'', ''rating''])]"

fun first_if_list :: "json \<Rightarrow> py_error + json" where
  \<comment> \<open>\<^verbatim>\<open>if isinstance(schema_type, list): schema_type = schema_type[0]\<close>\<close>
  "first_if_list (JArr []) = Inl IndexError"
| "first_if_list (JArr (x # xs)) = Inr x"
| "first_if_list v = Inr v"

fun detect_json_ld :: "json list \<Rightarrow> (py_error + json) option" where
  \<comment> \<open>the loop over \<^verbatim>\<open>parser.json_ld_data\<close>; \<^const>\<open>None\<close> when it ends without
      returning\<close>
  "detect_json_ld [] = None"
| "detect_json_ld (ld # rest) =
     (case py_in ''@type'' ld of
        Inl e \<Rightarrow> Some (Inl e)
      | Inr found \<Rightarrow>
          if found then
            (case py_getitem ld ''@type'' of
               Inl e \<Rightarrow> Some (Inl e)
             | Inr schema_type \<Rightarrow> Some (first_if_list schema_type))
          else detect_json_ld rest)"

fun detect_microdata :: "microdata_item list \<Rightarrow> string option" where
  \<comment> \<open>the loop over \<^verbatim>\<open>parser.microdata_items\<close>: \<^verbatim>\<open>item["type"].split("/")[-1]\<close>
      of the first item whose type is truthy\<close>
  "detect_microdata [] = None"
| "detect_microdata (item # rest) =
     (case item_type item of
        None \<Rightarrow> detect_microdata rest
      | Some ty \<Rightarrow> if ty \<noteq> [] then Some (last (split_on CHR ''/'' ty))
                   else detect_microdata rest)"

fun detect_keywords :: "string \<Rightarrow> string \<Rightarrow> (string \<times> string list) list \<Rightarrow> string option" where
  \<comment> \<open>the loop over \<^verbatim>\<open>SCHEMA_TYPES.items()\<close>\<close>
  "detect_keywords url_lower text [] = None"
| "detect_keywords url_lower text ((schema_type, kws) # rest) =
     (if list_ex (\<lambda>keyword. str_contains keyword url_lower \<or> str_contains keyword text) kws
      then Some schema_type
      else detect_keywords url_lower text rest)"

definition content_text :: "parser \<Rightarrow> string" where
  "content_text p = lower (join '' ''
     [title p, description p, join '' '' (heading_get (headings p) ''h1''),
      join '' '' (take 3 (paragraphs p))])"

definition detect_type :: "parser \<Rightarrow> string \<Rightarrow> py_error + json" where
  \<comment> \<open>the returned content type is whatever \<^verbatim>\<open>@type\<close> holds, a str in the other cases\<close>
  "detect_type p url =
    (case detect_json_ld (json_ld_data p) of
       Some r \<Rightarrow> r
     | None \<Rightarrow>
        (case detect_microdata (microdata_items p) of
           Some type_name \<Rightarrow> Inr (JStr type_name)
         | None \<Rightarrow>
            (case og_type p of
               Some t \<Rightarrow> Inr (JStr t)
             | None \<Rightarrow>
                (case detect_keywords (lower url) (content_text p) SCHEMA_TYPES of
                   Some schema_type \<Rightarrow> Inr (JStr schema_type)
                 | None \<Rightarrow> Inr (JStr ''WebPage'')))))"

section \<open>KeywordExtractor\<close>














section \<open>Hash embeddings\<close>

text \<open>
  A float is modelled by the rational it stands for: \<^verbatim>\<open>k / 100.0\<close> by \<open>k / 100\<close>.
  \<^verbatim>\<open>round(x, n)\<close> rounds to \<open>n\<close> decimals, a tie to the even digit. The digest
  \<^verbatim>\<open>int(hashlib.md5(text.encode()).hexdigest(), 16)\<close> is the parameter \<open>md5\<close>.
\<close>

definition round_half_even :: "rat \<Rightarrow> int" where
  "round_half_even x = (let f = \<lfloor>x\<rfloor>; r = x - of_int f in
     if r < 1 / 2 then f else if r > 1 / 2 then f + 1 else if even f then f else f + 1)"

definition py_round :: "rat \<Rightarrow> nat \<Rightarrow> rat" where
  "py_round x ndigits = of_int (round_half_even (x * 10 ^ ndigits)) / 10 ^ ndigits"

definition embedding_value :: "nat \<Rightarrow> nat \<Rightarrow> rat" where
  \<comment> \<open>one turn of the loop: \<^verbatim>\<open>round(((hash_val >> (i * 8)) % 200 - 100) / 100.0, 3)\<close>\<close>
  "embedding_value hash_val i =
     py_round (of_int (int (drop_bit (i * 8) hash_val mod 200) - 100) / 100) 3"

definition generate_simple_embedding :: "(string \<Rightarrow> nat) \<Rightarrow> string \<Rightarrow> nat \<Rightarrow> rat list" where
  \<comment> \<open>\<^verbatim>\<open>EmbeddingGenerator.generate_simple_embedding\<close>; \<open>dimensions\<close> is a count\<close>
  "generate_simple_embedding md5 text dimensions =
    (if text = [] then replicate dimensions 0
     else map (embedding_value (md5 text)) [0..<dimensions])"

definition embed :: "(string \<Rightarrow> nat) \<Rightarrow> nat \<Rightarrow> string \<Rightarrow> rat list" where
  \<comment> \<open>\<^verbatim>\<open>HashEmbeddings.embed\<close> of \<^verbatim>\<open>embedding_integration.py\<close>, the second argument
      being \<^verbatim>\<open>self.dimensions\<close>\<close>
  "embed md5 dimensions text =
    (if text = [] then replicate dimensions 0
     else map (embedding_value (md5 text)) [0..<dimensions])"

section \<open>LLMRGenerator\<close>

text \<open>
  A page is the dict that \<^verbatim>\<open>_process_page\<close> builds. Both methods below read it with
  \<^verbatim>\<open>page.get\<close>, so every key may be missing: a field is \<^const>\<open>None\<close> when the key is
  not in the dict. The language is the parser's, a str or \<^verbatim>\<open>None\<close>. The keys that neither
  method reads are left out.
\<close>

record page =
  page_id :: "string option"
  page_url :: "string option"
  page_type :: "json option"
  page_title :: "string option"
  page_description :: "string option"
  page_keywords :: "string list option"
  page_author :: "string option"
  page_language :: "pyval option"
  page_word_count :: "nat option"
  page_read_time :: "nat option"
  page_headings :: "heading_dict option"
  page_images_count :: "nat option"
  page_videos_count :: "nat option"
  page_code_blocks_count :: "int option"
  page_has_structured_data :: "bool option"
  page_embedding :: "rat list option"

definition get_or :: "'a option \<Rightarrow> 'a \<Rightarrow> 'a" where
  \<comment> \<open>\<^verbatim>\<open>page.get(key, default)\<close>\<close>
  "get_or v dflt = (case v of None \<Rightarrow> dflt | Some x \<Rightarrow> x)"

record compressed_page =
  c_id :: string
  c_u :: string
  c_t :: json
  c_ti :: string
  c_d :: string
  c_kw :: "string list"
  c_wc :: nat
  c_rt :: nat
  c_emb :: "rat list"
  c_a :: "string option"
  c_l :: "string option"
  c_sd :: "nat option"
  c_cb :: "int option"
  c_h1 :: "string option"

definition compress_page :: "page \<Rightarrow> compressed_page" where
  \<comment> \<open>the body of the loop of \<^verbatim>\<open>_compress_pages\<close>; an optional key that is not set is
      \<^const>\<open>None\<close>. \<^verbatim>\<open>round(read_time, 1)\<close> of an int is that int.\<close>
  "compress_page page =
    \<lparr> c_id = get_or (page_id page) ''unknown'',
      c_u = get_or (page_url page) [],
      c_t = get_or (page_type page) (JStr ''WebPage''),
      c_ti = take 100 (get_or (page_title page) []),
      c_d = take 200 (get_or (page_description page) []),
      c_kw = take 10 (get_or (page_keywords page) []),
      c_wc = get_or (page_word_count page) 0,
      c_rt = get_or (page_read_time page) 0,
      c_emb = get_or (page_embedding page) (replicate 16 0),
      c_a = (case page_author page of
               Some a \<Rightarrow> if a \<noteq> [] then Some a else None
             | None \<Rightarrow> None),
      c_l = (case page_language page of
               Some (Some lang) \<Rightarrow>
                 if lang \<noteq> [] then (if lang \<noteq> ''en'' then Some lang else None) else None
             | _ \<Rightarrow> None),
      c_sd = (if page_has_structured_data page = Some True then Some 1 else None),
      c_cb = (let cb = get_or (page_code_blocks_count page) 0 in
              if cb \<noteq> 0 then (if cb > 0 then Some cb else None) else None),
      c_h1 = (case map_of (get_or (page_headings page) []) ''h1'' of
                Some h1 \<Rightarrow> (case h1 of [] \<Rightarrow> None | first # rest \<Rightarrow> Some (take 100 first))
              | None \<Rightarrow> None) \<rparr>"

definition compress_pages :: "page list \<Rightarrow> compressed_page list" where
  "compress_pages pages = map compress_page pages"

text \<open>
  \<^verbatim>\<open>_generate_stats\<close> computes every entry with a generator expression over
  \<^verbatim>\<open>pages\<close>. A generator expression has a scope of its own, in which its loop variable is
  bound. The environment below holds the names bound to a page in that scope; a name that
  is not there is looked up in the method and in the module, neither of which binds a name
  to a page, so the lookup ends in \<^verbatim>\<open>NameError\<close>.
\<close>

definition lookup_name :: "(string \<rightharpoonup> page) \<Rightarrow> string \<Rightarrow> py_error + page" where
  "lookup_name env name = (case env name of None \<Rightarrow> Inl NameError | Some v \<Rightarrow> Inr v)"

fun sum_gen :: "string \<Rightarrow> ((string \<rightharpoonup> page) \<Rightarrow> py_error + nat) \<Rightarrow> page list \<Rightarrow> py_error + nat" where
  \<comment> \<open>\<^verbatim>\<open>sum(body for var in pages)\<close>\<close>
  "sum_gen var body [] = Inr 0"
| "sum_gen var body (x # xs) =
     (case body [var \<mapsto> x] of
        Inl e \<Rightarrow> Inl e
      | Inr n \<Rightarrow> (case sum_gen var body xs of Inl e \<Rightarrow> Inl e | Inr m \<Rightarrow> Inr (n + m)))"

fun count_gen :: "string \<Rightarrow> ((string \<rightharpoonup> page) \<Rightarrow> py_error + bool) \<Rightarrow> page list \<Rightarrow> py_error + nat" where
  \<comment> \<open>\<^verbatim>\<open>sum(1 for var in pages if cond)\<close>\<close>
  "count_gen var cond [] = Inr 0"
| "count_gen var cond (x # xs) =
     (case cond [var \<mapsto> x] of
        Inl e \<Rightarrow> Inl e
      | Inr b \<Rightarrow> (case count_gen var cond xs of
                    Inl e \<Rightarrow> Inl e
                  | Inr m \<Rightarrow> Inr (if b then 1 + m else m)))"

fun set_gen :: "string \<Rightarrow> ((string \<rightharpoonup> page) \<Rightarrow> py_error + pyval) \<Rightarrow> page list \<Rightarrow> py_error + pyval set" where
  \<comment> \<open>\<^verbatim>\<open>set(body for var in pages)\<close>\<close>
  "set_gen var body [] = Inr {}"
| "set_gen var body (x # xs) =
     (case body [var \<mapsto> x] of
        Inl e \<Rightarrow> Inl e
      | Inr v \<Rightarrow> (case set_gen var body xs of Inl e \<Rightarrow> Inl e | Inr s \<Rightarrow> Inr (insert v s)))"

definition on_page :: "(string \<rightharpoonup> page) \<Rightarrow> string \<Rightarrow> (page \<Rightarrow> 'a) \<Rightarrow> py_error + 'a" where
  \<comment> \<open>an expression that reads the page bound to \<open>name\<close>\<close>
  "on_page env name f = (case lookup_name env name of Inl e \<Rightarrow> Inl e | Inr pg \<Rightarrow> Inr (f pg))"

record stats =
  total_pages :: nat
  total_words :: nat
  avg_read_time :: rat
  pages_with_code :: nat
  pages_with_structured_data :: nat
  total_images :: nat
  total_videos :: nat
  languages :: "pyval set"

datatype stats_dict = NoPages | SiteStats stats

definition generate_stats :: "(rat \<Rightarrow> rat) \<Rightarrow> page list \<Rightarrow> py_error + stats_dict" where
  \<comment> \<open>\<^verbatim>\<open>NoPages\<close> is \<^verbatim>\<open>{"total_pages": 0}\<close>. The entries of the dict display are
      evaluated in the order written. \<open>round1\<close> is \<^verbatim>\<open>round(x, 1)\<close> on floats; the list of
      languages comes from a set, so its order is not fixed and it is kept as a set.\<close>
  "generate_stats round1 pages =
    (if pages = [] then Inr NoPages
     else
       case sum_gen ''page'' (\<lambda>env. on_page env ''page'' (\<lambda>pg. get_or (page_word_count pg) 0)) pages of
         Inl e \<Rightarrow> Inl e | Inr words \<Rightarrow>
       case sum_gen ''page'' (\<lambda>env. on_page env ''page'' (\<lambda>pg. get_or (page_read_time pg) 0)) pages of
         Inl e \<Rightarrow> Inl e | Inr read \<Rightarrow>
       case count_gen ''p'' (\<lambda>env. on_page env ''page''
                (\<lambda>pg. get_or (page_code_blocks_count pg) 0 > 0)) pages of
         Inl e \<Rightarrow> Inl e | Inr with_code \<Rightarrow>
       case count_gen ''p'' (\<lambda>env. on_page env ''page''
                (\<lambda>pg. page_has_structured_data pg = Some True)) pages of
         Inl e \<Rightarrow> Inl e | Inr with_sd \<Rightarrow>
       case sum_gen ''page'' (\<lambda>env. on_page env ''page'' (\<lambda>pg. get_or (page_images_count pg) 0)) pages of
         Inl e \<Rightarrow> Inl e | Inr imgs \<Rightarrow>
       case sum_gen ''page'' (\<lambda>env. on_page env ''page'' (\<lambda>pg. get_or (page_videos_count pg) 0)) pages of
         Inl e \<Rightarrow> Inl e | Inr vids \<Rightarrow>
       case set_gen ''page'' (\<lambda>env. on_page env ''page''
                (\<lambda>pg. get_or (page_language pg) (Some ''en''))) pages of
         Inl e \<Rightarrow> Inl e | Inr langs \<Rightarrow>
       Inr (SiteStats \<lparr> total_pages = length pages, total_words = words,
              avg_read_time = round1 (of_nat read / of_nat (length pages)),
              pages_with_code = with_code, pages_with_structured_data = with_sd,
              total_images = imgs, total_videos = vids, languages = langs \<rparr>))"

section \<open>Notions used in the statements\<close>

definition accepted :: "json_loads \<Rightarrow> string \<Rightarrow> json option" where
  \<comment> \<open>the value read, \<^const>\<open>None\<close> when the reader raises\<close>
  "accepted loads text = (case loads text of Inl e \<Rightarrow> None | Inr v \<Rightarrow> Some v)"

definition endtag_result :: "(string \<Rightarrow> json option) \<Rightarrow> string \<Rightarrow> parser \<Rightarrow> parser" where
  \<comment> \<open>the state that the chain of \<^verbatim>\<open>handle_endtag\<close> leaves when no exception leaves it,
      given what the reader accepts\<close>
  "endtag_result accept tag st =
    (if tag \<in> set (map fst (headings st)) \<and> current_content st \<noteq> [] then
       (let content = buffer_text st;
            st1 = (if content \<noteq> []
                   then st\<lparr>headings := heading_append tag content (headings st)\<rparr>
                   else st)
        in st1\<lparr>current_content := []\<rparr>)
     else if tag = ''p'' \<and> current_content st \<noteq> [] then
       (let content = buffer_text st;
            st1 = (if content \<noteq> []
                   then st\<lparr>paragraphs := paragraphs st @ [content],
                           word_count := word_count st + length (split_ws content)\<rparr>
                   else st)
        in st1\<lparr>current_content := []\<rparr>)
     else if tag = ''a'' \<and> links st \<noteq> [] \<and> current_content st \<noteq> [] then
       st\<lparr>links := set_last_text (buffer_text st) (links st), current_content := []\<rparr>
     else if (tag = ''pre'' \<or> tag = ''code'') \<and> code_blocks st \<noteq> [] then
       st\<lparr>code_blocks := set_last_content (buffer_text st) (code_blocks st),
          current_content := []\<rparr>
     else if tag = ''script'' then
       (let st1 = (if in_script st = InJsonLd \<and> current_content st \<noteq> []
                   then (case accept (join '' '' (current_content st)) of
                           Some json_data \<Rightarrow> st\<lparr>json_ld_data := json_ld_data st @ [json_data]\<rparr>
                         | None \<Rightarrow> st)
                   else st)
        in st1\<lparr>in_script := NotInScript, current_content := []\<rparr>)
     else if tag = ''style'' then st\<lparr>in_style := False, current_content := []\<rparr>
     else st)"

definition endtag_outcome :: "(string \<Rightarrow> json option) \<Rightarrow> string \<Rightarrow> parser \<Rightarrow> parser" where
  \<comment> \<open>the state that \<^verbatim>\<open>handle_endtag\<close> leaves when it returns\<close>
  "endtag_outcome accept tag st =
    (let st1 = (if tag_stack st \<noteq> [] \<and> last (tag_stack st) = tag
                then st\<lparr>tag_stack := butlast (tag_stack st)\<rparr> else st);
         st2 = endtag_result accept tag st1
     in st2\<lparr>current_tag := (if tag_stack st2 \<noteq> [] then Some (last (tag_stack st2)) else None)\<rparr>)"


definition content_view :: "parser \<Rightarrow> heading_dict \<times> string list \<times> json list \<times> string list \<times> nat \<times> nat" where
  \<comment> \<open>the fields that no start tag changes\<close>
  "content_view st = (headings st, paragraphs st, json_ld_data st, current_content st,
     word_count st, estimated_read_time st)"

definition words_of :: "string list \<Rightarrow> nat" where
  \<comment> \<open>the sum of \<^verbatim>\<open>len(content.split())\<close> over the paragraphs\<close>
  "words_of ps = sum_list (map (\<lambda>s. length (split_ws s)) ps)"

definition description_meta :: "attrs \<Rightarrow> string option" where
  \<comment> \<open>the content of a meta tag that targets the description field (its name is
      \<^verbatim>\<open>description\<close> or its property \<^verbatim>\<open>og:description\<close>, compared in lower case) with a
      non-empty content; \<^const>\<open>None\<close> for any other attribute list\<close>
  "description_meta as = (let d = attrs_dict as in
     case str_lower (dict_get d ''name'' []) of Inl e \<Rightarrow> None | Inr name \<Rightarrow>
     case str_lower (dict_get d ''property'' []) of Inl e \<Rightarrow> None | Inr property_name \<Rightarrow>
     case dict_get d ''content'' [] of None \<Rightarrow> None | Some content \<Rightarrow>
       if content \<noteq> [] \<and> (name = ''description'' \<or> property_name = ''og:description'')
       then Some content else None)"

definition sets_description :: "event \<Rightarrow> bool" where
  \<comment> \<open>the event is such a meta tag\<close>
  "sets_description ev =
     (case ev of StartTag tag as \<Rightarrow> tag = ''meta'' \<and> description_meta as \<noteq> None
      | EndTag tag \<Rightarrow> False | Data raw \<Rightarrow> False)"


section \<open>Sample data\<close>

text \<open>
  Concrete texts, documents, pages and parameters, used to run the definitions on concrete
  inputs. \<open>sample_loads\<close> is a reader for the sample texts; the theorems themselves hold
  for every reader, digest function and listing order.
\<close>

definition article_text :: string where
  \<open>article_text = ''{"@type": "Article"}''\<close>

definition quoted_text :: string where
  \<open>quoted_text = ''"has @type inside"''\<close>

definition deep_text :: string where
  \<comment> \<open>2000 opening brackets, on which \<^verbatim>\<open>json.loads\<close> raises \<^verbatim>\<open>RecursionError\<close>\<close>
  "deep_text = replicate 2000 CHR ''[''"

definition sample_loads :: json_loads where
  \<comment> \<open>what \<^verbatim>\<open>json.loads\<close> does on the texts used below; the other texts used are not
      JSON\<close>
  "sample_loads s =
     (if s = article_text then Inr (JObj [(''@type'', JStr ''Article'')])
      else if s = quoted_text then Inr (JStr ''has @type inside'')
      else if s = deep_text then Inl RecursionError
      else Inl JSONDecodeError)"

definition ld_json_attrs :: attrs where
  "ld_json_attrs = [(''type'', Some ''application/ld+json'')]"

definition quoted_doc :: "event list" where
  "quoted_doc = [StartTag ''script'' ld_json_attrs, Data quoted_text, EndTag ''script'']"

definition quoted_then_article_doc :: "event list" where
  "quoted_then_article_doc =
     [StartTag ''script'' ld_json_attrs, Data quoted_text, EndTag ''script'',
      StartTag ''script'' ld_json_attrs, Data article_text, EndTag ''script'']"

definition empty_page :: page where
  "empty_page = \<lparr> page_id = None, page_url = None, page_type = None, page_title = None,
     page_description = None, page_keywords = None, page_author = None, page_language = None,
     page_word_count = None, page_read_time = None, page_headings = None,
     page_images_count = None, page_videos_count = None, page_code_blocks_count = None,
     page_has_structured_data = None, page_embedding = None \<rparr>"

definition two_pages :: "page list" where
  "two_pages = [empty_page\<lparr>page_code_blocks_count := Some 2\<rparr>, empty_page]"

definition first_description_attrs :: attrs where
  "first_description_attrs = [(''name'', Some ''description''), (''content'', Some ''first summary'')]"

definition second_description_attrs :: attrs where
  "second_description_attrs =
     [(''property'', Some ''og:description''), (''content'', Some ''second summary'')]"

definition two_descriptions_doc :: "event list" where
  "two_descriptions_doc =
     [StartTag ''meta'' first_description_attrs, StartTag ''meta'' second_description_attrs]"

definition short_paragraph_doc :: "event list" where
  "short_paragraph_doc = [StartTag ''p'' [], Data ''hello world'', EndTag ''p'']"

definition abc_md5 :: "string \<Rightarrow> nat" where
  \<comment> \<open>a digest function for concrete runs: the MD5 digest of \<^verbatim>\<open>abc\<close>, for every text\<close>
  "abc_md5 text = 0x900150983cd24fb0d6963f7d28e17f72"

definition french_page :: page where
  "french_page = empty_page\<lparr>page_title := Some ''Bonjour'',
     page_description := Some (replicate 250 CHR ''x''),
     page_language := Some (Some ''fr''), page_author := Some ''Ada'',
     page_headings := Some [(''h1'', [''Bonjour'', ''Salut''])],
     page_code_blocks_count := Some 2, page_has_structured_data := Some True\<rparr>"

definition blank_language_page :: page where
  \<comment> \<open>the page of a document that starts with \<^verbatim>\<open><html lang="">\<close>\<close>
  "blank_language_page = empty_page\<lparr>page_language := Some (Some [])\<rparr>"





section \<open>Properties of the parser\<close>

lemma parse_meta_tag_view:
  "case parse_meta_tag d st of Inl e \<Rightarrow> True | Inr st' \<Rightarrow> content_view st' = content_view st"
  unfolding parse_meta_tag_def content_view_def
  by (simp split: sum.split option.split)

lemma starttag_dispatch_view:
  "case starttag_dispatch tag d st of Inl e \<Rightarrow> True | Inr st' \<Rightarrow> content_view st' = content_view st"
proof (cases "tag = ''meta''")
  case True
  then show ?thesis using parse_meta_tag_view [where d=d and st=st] by (simp add: starttag_dispatch_def)
next
  case False
  then show ?thesis
    unfolding starttag_dispatch_def parse_link_tag_def content_view_def by simp
qed

lemma handle_starttag_view:
  "case handle_starttag tag as st of Inl e \<Rightarrow> True | Inr st' \<Rightarrow> content_view st' = content_view st"
proof (cases "starttag_dispatch tag (attrs_dict as)
                (st\<lparr>current_tag := Some tag, tag_stack := tag_stack st @ [tag]\<rparr>)")
  case (Inl e)
  then show ?thesis by (simp add: handle_starttag_def)
next
  case (Inr st2)
  have "content_view st2 = content_view st"
    using starttag_dispatch_view [where tag=tag and d="attrs_dict as" and st=
        "st\<lparr>current_tag := Some tag, tag_stack := tag_stack st @ [tag]\<rparr>"] Inr
    by (simp add: content_view_def)
  then show ?thesis using Inr
    by (simp add: handle_starttag_def Let_def parse_microdata_def parse_rdfa_def content_view_def)
qed

lemma handle_starttag_ok_view:
  "handle_starttag tag as st = Inr st' \<Longrightarrow> content_view st' = content_view st"
  using handle_starttag_view [where tag=tag and as=as and st=st] by simp

lemma feed_append:
  "feed loads (xs @ ys) st =
     (case feed loads xs st of Inl e \<Rightarrow> Inl e | Inr st' \<Rightarrow> feed loads ys st')"
  by (induction xs arbitrary: st) (simp_all split: sum.split)





lemma endtag_dispatch_returns:
  "case endtag_dispatch loads tag st of Inl e \<Rightarrow> True
   | Inr st' \<Rightarrow> st' = endtag_result (accepted loads) tag st"
proof -
  let ?c1 = "tag \<in> set (map fst (headings st)) \<and> current_content st \<noteq> []"
  let ?c2 = "tag = ''p'' \<and> current_content st \<noteq> []"
  let ?c3 = "tag = ''a'' \<and> links st \<noteq> [] \<and> current_content st \<noteq> []"
  let ?c4 = "(tag = ''pre'' \<or> tag = ''code'') \<and> code_blocks st \<noteq> []"
  consider (h) "?c1" | (p) "\<not> ?c1" "?c2" | (a) "\<not> ?c1" "\<not> ?c2" "?c3"
    | (c) "\<not> ?c1" "\<not> ?c2" "\<not> ?c3" "?c4"
    | (s) "\<not> ?c1" "\<not> ?c2" "\<not> ?c3" "\<not> ?c4" "tag = ''script''"
    | (o) "\<not> ?c1" "\<not> ?c2" "\<not> ?c3" "\<not> ?c4" "tag \<noteq> ''script''"
    by blast
  then show ?thesis
  proof cases
    case h
    then show ?thesis unfolding endtag_dispatch_def endtag_result_def Let_def
      by (simp only: simp_thms if_True if_False sum.case)
  next
    case p
    then show ?thesis unfolding endtag_dispatch_def endtag_result_def Let_def
      by (simp only: simp_thms if_True if_False sum.case)
  next
    case a
    then show ?thesis unfolding endtag_dispatch_def endtag_result_def Let_def
      by (simp only: simp_thms if_True if_False sum.case)
  next
    case c
    then show ?thesis unfolding endtag_dispatch_def endtag_result_def Let_def
      by (simp only: simp_thms if_True if_False sum.case)
  next
    case s
    then show ?thesis unfolding endtag_dispatch_def endtag_result_def accepted_def Let_def
      by (simp only: simp_thms if_True if_False) (auto split: sum.split)
  next
    case o
    then show ?thesis unfolding endtag_dispatch_def endtag_result_def Let_def
      by (simp only: simp_thms if_True if_False) simp
  qed
qed

lemma handle_endtag_returns:
  assumes "handle_endtag loads tag st = Inr st'"
  shows "st' = endtag_outcome (accepted loads) tag st"
proof -
  define st1 where "st1 = (if tag_stack st \<noteq> [] \<and> last (tag_stack st) = tag
              then st\<lparr>tag_stack := butlast (tag_stack st)\<rparr> else st)"
  have h: "handle_endtag loads tag st =
      (case endtag_dispatch loads tag st1 of
         Inl e \<Rightarrow> Inl e
       | Inr st2 \<Rightarrow>
           Inr (st2\<lparr>current_tag :=
                  (if tag_stack st2 \<noteq> [] then Some (last (tag_stack st2)) else None)\<rparr>))"
    unfolding handle_endtag_def Let_def st1_def ..
  have o: "endtag_outcome (accepted loads) tag st =
      (endtag_result (accepted loads) tag st1)\<lparr>current_tag :=
         (if tag_stack (endtag_result (accepted loads) tag st1) \<noteq> []
          then Some (last (tag_stack (endtag_result (accepted loads) tag st1))) else None)\<rparr>"
    unfolding endtag_outcome_def Let_def st1_def ..
  show ?thesis
  proof (cases "endtag_dispatch loads tag st1")
    case (Inl e)
    with assms h show ?thesis by simp
  next
    case (Inr st2)
    with endtag_dispatch_returns [where loads=loads and tag=tag and st=st1]
    have "st2 = endtag_result (accepted loads) tag st1" by simp
    with assms h Inr show ?thesis unfolding o by simp
  qed
qed














section \<open>Properties of the content-type classifier\<close>

lemma detect_type_json_ld:
  "detect_json_ld (json_ld_data p) = Some r \<Longrightarrow> detect_type p url = r"
  by (simp add: detect_type_def)

text \<open>
  Claim C10. The classifier is not total on parsed JSON-LD values: when the first collected
  value is a JSON string that contains \<^verbatim>\<open>@type\<close>, the membership test
  \<^verbatim>\<open>"@type" in ld\<close> succeeds as a substring test, indexing the string with the key raises
  \<^verbatim>\<open>TypeError\<close>, and \<^verbatim>\<open>detect_type\<close> ends with that exception instead of a content
  type.
\<close>

theorem detect_type_raises_on_json_string:
  assumes "json_ld_data p = JStr s # rest" and "str_contains ''@type'' s"
  shows "py_in ''@type'' (JStr s) = Inr True
       \<and> py_getitem (JStr s) ''@type'' = Inl TypeError
       \<and> detect_type p url = Inl TypeError"
proof -
  have "detect_json_ld (json_ld_data p) = Some (Inl TypeError)"
    using assms by simp
  then show ?thesis using assms(2) by (simp add: detect_type_json_ld)
qed

theorem detect_type_raises_on_json_string_witness:
  "parse_document sample_loads quoted_doc
     = Inr (new_parser\<lparr>json_ld_data := [JStr ''has @type inside'']\<rparr>)
   \<and> str_contains ''@type'' ''has @type inside''
   \<and> detect_type (new_parser\<lparr>json_ld_data := [JStr ''has @type inside'']\<rparr>) ''/index.html''
       = Inl TypeError"
proof -
  let ?p = "new_parser\<lparr>json_ld_data := [JStr ''has @type inside'']\<rparr>"
  have a: "json_ld_data ?p = JStr ''has @type inside'' # []" by simp
  have b: "str_contains ''@type'' ''has @type inside''" by code_simp
  have c: "parse_document sample_loads quoted_doc = Inr ?p" by code_simp
  from detect_type_raises_on_json_string [OF a b, of "''/index.html''"] b c show ?thesis
    by simp
qed

text \<open>
  Claim C5. The document holds two JSON-LD blocks, the JSON string of claim C10 and then the
  object \<^verbatim>\<open>{"@type": "Article"}\<close>. Its collection contains an object with an
  \<^verbatim>\<open>@type\<close> key, yet the classifier raises \<^verbatim>\<open>TypeError\<close> on the string before it
  reaches the object, where the claim has it return \<^verbatim>\<open>Article\<close>.
\<close>

theorem detect_type_json_string_before_article:
  "parse_document sample_loads quoted_then_article_doc
     = Inr (new_parser\<lparr>json_ld_data :=
              [JStr ''has @type inside'', JObj [(''@type'', JStr ''Article'')]]\<rparr>)
   \<and> detect_type (new_parser\<lparr>json_ld_data :=
              [JStr ''has @type inside'', JObj [(''@type'', JStr ''Article'')]]\<rparr>) ''/post.html''
       = Inl TypeError"
  by code_simp

text \<open>
  On a collection that starts with an object holding \<^verbatim>\<open>@type\<close> the classifier returns
  that value, or the first element of a non-empty list; with no signal at all it returns
  \<^verbatim>\<open>WebPage\<close>.
\<close>

lemma detect_type_first_object:
  assumes "json_ld_data p = JObj kvs # rest" and "map_of kvs ''@type'' = Some v"
  shows "detect_type p url = first_if_list v"
proof -
  have "''@type'' \<in> set (map fst kvs)"
    using assms(2) by (metis map_of_eq_None_iff option.distinct(1) set_map)
  then have "detect_json_ld (json_ld_data p) = Some (first_if_list v)"
    using assms by simp
  then show ?thesis by (rule detect_type_json_ld)
qed

lemma detect_type_article:
  "json_ld_data p = JObj kvs # rest \<Longrightarrow> map_of kvs ''@type'' = Some (JStr ''Article'')
     \<Longrightarrow> detect_type p url = Inr (JStr ''Article'')"
  "json_ld_data p = JObj kvs # rest
     \<Longrightarrow> map_of kvs ''@type'' = Some (JArr [JStr ''Article'', JStr ''BlogPosting''])
     \<Longrightarrow> detect_type p url = Inr (JStr ''Article'')"
  by (simp_all add: detect_type_first_object)

lemma detect_type_default:
  assumes "json_ld_data p = []" and "detect_microdata (microdata_items p) = None"
    and "og_type p = None"
    and "detect_keywords (lower url) (content_text p) SCHEMA_TYPES = None"
  shows "detect_type p url = Inr (JStr ''WebPage'')"
  using assms by (simp add: detect_type_def)

section \<open>Properties of the site statistics\<close>

lemma count_gen_unbound:
  "count_gen ''p'' (\<lambda>env. on_page env ''page'' f) (x # xs) = Inl NameError"
  by (simp add: on_page_def lookup_name_def)

lemma sum_gen_bound:
  "sum_gen ''page'' (\<lambda>env. on_page env ''page'' f) pages = Inr (sum_list (map f pages))"
  by (induction pages) (simp_all add: on_page_def lookup_name_def)

lemma generate_stats_nonempty:
  "generate_stats round1 (x # xs) = Inl NameError"
  unfolding generate_stats_def
  by (simp add: sum_gen_bound count_gen_unbound del: sum_gen.simps count_gen.simps)

text \<open>
  Claim C1. For two pages, one with \<^verbatim>\<open>code_blocks_count\<close> 2 and one without the key,
  \<^verbatim>\<open>_generate_stats\<close> does not return a stats object: the filter of the generator that
  counts the pages with code reads the name \<^verbatim>\<open>page\<close> while its loop variable is
  \<^verbatim>\<open>p\<close>, and the lookup raises \<^verbatim>\<open>NameError\<close>.
\<close>

theorem generate_stats_two_pages_raises:
  "generate_stats round1 two_pages = Inl NameError"
  unfolding two_pages_def by (rule generate_stats_nonempty)

section \<open>Read time\<close>

lemma endtag_result_counted:
  assumes "word_count st = words_of (paragraphs st)"
  shows "word_count (endtag_result loads tag st) = words_of (paragraphs (endtag_result loads tag st))
     \<and> estimated_read_time (endtag_result loads tag st) = estimated_read_time st"
  using assms unfolding endtag_result_def Let_def
  by (simp add: words_of_def split: option.split)

lemma endtag_outcome_counted:
  assumes "word_count st = words_of (paragraphs st)"
  shows "word_count (endtag_outcome loads tag st) = words_of (paragraphs (endtag_outcome loads tag st))
     \<and> estimated_read_time (endtag_outcome loads tag st) = estimated_read_time st"
proof -
  let ?st1 = "if tag_stack st \<noteq> [] \<and> last (tag_stack st) = tag
              then st\<lparr>tag_stack := butlast (tag_stack st)\<rparr> else st"
  have "word_count ?st1 = words_of (paragraphs ?st1)" using assms by simp
  from endtag_result_counted [OF this, of loads tag] show ?thesis
    unfolding endtag_outcome_def Let_def by simp
qed

lemma handle_data_counted:
  "word_count (handle_data raw st) = word_count st
     \<and> paragraphs (handle_data raw st) = paragraphs st
     \<and> estimated_read_time (handle_data raw st) = estimated_read_time st"
  unfolding handle_data_def Let_def by simp

lemma handle_event_counted:
  assumes "handle_event loads ev st = Inr st'"
    and "word_count st = words_of (paragraphs st)"
  shows "word_count st' = words_of (paragraphs st')
     \<and> estimated_read_time st' = estimated_read_time st"
proof (cases ev)
  case (StartTag tag as)
  with assms(1) have "content_view st' = content_view st"
    by (simp add: handle_event_def handle_starttag_ok_view)
  with assms(2) show ?thesis by (simp add: content_view_def)
next
  case (EndTag tag)
  with assms(1) have "handle_endtag loads tag st = Inr st'" by (simp add: handle_event_def)
  then have "st' = endtag_outcome (accepted loads) tag st" by (rule handle_endtag_returns)
  with endtag_outcome_counted [OF assms(2)] show ?thesis by simp
next
  case (Data raw)
  with assms(1) have "st' = handle_data raw st" by (simp add: handle_event_def)
  with handle_data_counted [of raw st] assms(2) show ?thesis by simp
qed

lemma feed_counted:
  "feed loads evs st = Inr st' \<Longrightarrow> word_count st = words_of (paragraphs st)
     \<Longrightarrow> word_count st' = words_of (paragraphs st')
       \<and> estimated_read_time st' = estimated_read_time st"
proof (induction evs arbitrary: st)
  case Nil
  then show ?case by simp
next
  case (Cons ev evs)
  from Cons.prems(1) obtain st1 where s: "handle_event loads ev st = Inr st1"
    and f: "feed loads evs st1 = Inr st'"
    by (cases "handle_event loads ev st") simp_all
  from handle_event_counted [OF s Cons.prems(2)] Cons.IH [OF f] show ?case by simp
qed

lemma calculate_read_time_bounds:
  assumes "estimated_read_time st = 0"
  shows "word_count (calculate_read_time st) = word_count st"
    and "paragraphs (calculate_read_time st) = paragraphs st"
    and "word_count st = 0 \<longrightarrow> estimated_read_time (calculate_read_time st) = 0"
    and "0 < word_count st \<and> word_count st \<le> 100
           \<longrightarrow> estimated_read_time (calculate_read_time st) = 1"
    and "100 < word_count st \<longrightarrow>
           200 * estimated_read_time (calculate_read_time st) \<le> word_count st + 100
         \<and> word_count st \<le> 200 * estimated_read_time (calculate_read_time st) + 100
         \<and> (word_count st mod 200 = 100 \<longrightarrow> even (estimated_read_time (calculate_read_time st)))"
proof -
  show "word_count (calculate_read_time st) = word_count st"
    by (simp add: calculate_read_time_def)
  show "paragraphs (calculate_read_time st) = paragraphs st"
    by (simp add: calculate_read_time_def)
  show "word_count st = 0 \<longrightarrow> estimated_read_time (calculate_read_time st) = 0"
    using assms by (simp add: calculate_read_time_def)
  show "0 < word_count st \<and> word_count st \<le> 100
           \<longrightarrow> estimated_read_time (calculate_read_time st) = 1"
    by (auto simp: calculate_read_time_def Let_def)
  show "100 < word_count st \<longrightarrow>
           200 * estimated_read_time (calculate_read_time st) \<le> word_count st + 100
         \<and> word_count st \<le> 200 * estimated_read_time (calculate_read_time st) + 100
         \<and> (word_count st mod 200 = 100 \<longrightarrow> even (estimated_read_time (calculate_read_time st)))"
  proof
    assume w: "100 < word_count st"
    define q where "q = word_count st div 200"
    define r where "r = word_count st mod 200"
    have eq: "word_count st = 200 * q + r" and r: "r < 200"
      by (simp_all add: q_def r_def)
    have q0: "r \<le> 100 \<Longrightarrow> 0 < q" using w eq by arith
    have e: "estimated_read_time (calculate_read_time st) =
        max 1 (if r < 100 then q else if r > 100 then q + 1 else if even q then q else q + 1)"
      using w by (simp add: calculate_read_time_def Let_def q_def r_def)
    show "200 * estimated_read_time (calculate_read_time st) \<le> word_count st + 100
         \<and> word_count st \<le> 200 * estimated_read_time (calculate_read_time st) + 100
         \<and> (word_count st mod 200 = 100 \<longrightarrow> even (estimated_read_time (calculate_read_time st)))"
      unfolding e r_def [symmetric] using eq r q0 by (auto simp: max_def)
  qed
qed

text \<open>
  Claim C3, as amended. For every document that parses, the word count is the number of
  whitespace-separated tokens of the collected paragraphs, so it is 0 when there is no
  paragraph. After \<^verbatim>\<open>calculate_read_time\<close> the estimated read time is 0 when the word
  count is 0 (the field keeps its initial value); for a positive word count it is the
  quotient by 200 rounded to the nearest integer, a tie going to the even neighbour, and
  at least 1.
\<close>

theorem read_time_after_finalization:
  assumes "parse_document loads evs = Inr p"
  shows "word_count p = words_of (paragraphs p)
     \<and> (paragraphs p = [] \<longrightarrow> word_count p = 0)
     \<and> (word_count p = 0 \<longrightarrow> estimated_read_time p = 0)
     \<and> (0 < word_count p \<and> word_count p \<le> 100 \<longrightarrow> estimated_read_time p = 1)
     \<and> (100 < word_count p \<longrightarrow>
           200 * estimated_read_time p \<le> word_count p + 100
         \<and> word_count p \<le> 200 * estimated_read_time p + 100
         \<and> (word_count p mod 200 = 100 \<longrightarrow> even (estimated_read_time p)))"
proof -
  from assms obtain st where f: "feed loads evs new_parser = Inr st"
    and p: "p = calculate_read_time st"
    unfolding parse_document_def by (cases "feed loads evs new_parser") auto
  have "word_count new_parser = words_of (paragraphs new_parser)"
    by (simp add: new_parser_def words_of_def)
  from feed_counted [OF f this]
  have c: "word_count st = words_of (paragraphs st)" and z: "estimated_read_time st = 0"
    by (simp_all add: new_parser_def)
  have "word_count p = words_of (paragraphs p)"
    using c p calculate_read_time_bounds(1,2) [OF z] by simp
  moreover from this have "paragraphs p = [] \<longrightarrow> word_count p = 0"
    by (simp add: words_of_def)
  ultimately show ?thesis
    using calculate_read_time_bounds [OF z] unfolding p by simp
qed

theorem read_time_after_finalization_witness:
  "parse_document sample_loads short_paragraph_doc
     = Inr (new_parser\<lparr>paragraphs := [''hello world''], word_count := 2,
              estimated_read_time := 1\<rparr>)
   \<and> words_of [''hello world''] = 2"
proof -
  let ?p = "new_parser\<lparr>paragraphs := [''hello world''], word_count := 2,
              estimated_read_time := 1\<rparr>"
  have a: "parse_document sample_loads short_paragraph_doc = Inr ?p" by code_simp
  from read_time_after_finalization [OF a] a show ?thesis by simp
qed

theorem read_time_counterexample:
  "parse_document sample_loads [] = Inr new_parser
   \<and> paragraphs new_parser = [] \<and> word_count new_parser = 0
   \<and> estimated_read_time new_parser = 0
   \<and> estimated_read_time (calculate_read_time (new_parser\<lparr>word_count := 201\<rparr>)) = 1"
  by code_simp

section \<open>Description meta tags\<close>

lemma parse_meta_tag_description:
  "case parse_meta_tag (attrs_dict as) st of Inl e \<Rightarrow> True
   | Inr st' \<Rightarrow> description st' =
       (case description_meta as of Some c \<Rightarrow> c | None \<Rightarrow> description st)"
  unfolding parse_meta_tag_def description_meta_def Let_def
  by (simp split: sum.split option.split)

lemma starttag_dispatch_description:
  "tag \<noteq> ''meta'' \<Longrightarrow>
   case starttag_dispatch tag d st of Inl e \<Rightarrow> True
   | Inr st' \<Rightarrow> description st' = description st"
  unfolding starttag_dispatch_def parse_link_tag_def by simp

lemma handle_starttag_description:
  assumes "handle_starttag tag as st = Inr st'"
  shows "description st' =
     (if tag = ''meta''
      then (case description_meta as of Some c \<Rightarrow> c | None \<Rightarrow> description st)
      else description st)"
proof -
  let ?st1 = "st\<lparr>current_tag := Some tag, tag_stack := tag_stack st @ [tag]\<rparr>"
  obtain st2 where d: "starttag_dispatch tag (attrs_dict as) ?st1 = Inr st2"
    using assms unfolding handle_starttag_def Let_def
    by (cases "starttag_dispatch tag (attrs_dict as) ?st1") simp_all
  have a: "description st' = description st2"
    using assms d unfolding handle_starttag_def Let_def
    by (auto simp: parse_microdata_def parse_rdfa_def)
  show ?thesis
  proof (cases "tag = ''meta''")
    case True
    then have "parse_meta_tag (attrs_dict as) ?st1 = Inr st2"
      using d by (simp add: starttag_dispatch_def)
    with parse_meta_tag_description [where as=as and st="?st1"] a True
    show ?thesis by (simp split: option.split)
  next
    case False
    with starttag_dispatch_description [OF False, where d="attrs_dict as" and st="?st1"] d a
    show ?thesis by simp
  qed
qed

lemma endtag_result_description:
  "description (endtag_result loads tag st) = description st"
  unfolding endtag_result_def Let_def by (simp split: option.split)

lemma endtag_outcome_description:
  "description (endtag_outcome loads tag st) = description st"
  unfolding endtag_outcome_def Let_def by (simp add: endtag_result_description)

lemma handle_data_description: "description (handle_data raw st) = description st"
  unfolding handle_data_def Let_def by simp

lemma handle_event_other:
  assumes "handle_event loads ev st = Inr st'" and "\<not> sets_description ev"
  shows "description st' = description st"
proof (cases ev)
  case (StartTag tag as)
  with assms(1) have "handle_starttag tag as st = Inr st'" by (simp add: handle_event_def)
  from handle_starttag_description [OF this] assms(2) StartTag show ?thesis
    by (auto simp: sets_description_def)
next
  case (EndTag tag)
  with assms(1) have "handle_endtag loads tag st = Inr st'" by (simp add: handle_event_def)
  then have "st' = endtag_outcome (accepted loads) tag st" by (rule handle_endtag_returns)
  then show ?thesis by (simp add: endtag_outcome_description)
next
  case (Data raw)
  with assms(1) show ?thesis by (auto simp: handle_event_def handle_data_description)
qed

lemma feed_other:
  "feed loads evs st = Inr st' \<Longrightarrow> \<not> list_ex sets_description evs
     \<Longrightarrow> description st' = description st"
proof (induction evs arbitrary: st)
  case Nil
  then show ?case by simp
next
  case (Cons ev evs)
  from Cons.prems(1) obtain st1 where s: "handle_event loads ev st = Inr st1"
    and f: "feed loads evs st1 = Inr st'"
    by (cases "handle_event loads ev st") simp_all
  from Cons.prems(2) have n: "\<not> sets_description ev" "\<not> list_ex sets_description evs"
    by simp_all
  from Cons.IH [OF f n(2)] handle_event_other [OF s n(1)] show ?case by simp
qed

text \<open>
  Claim C4, as amended. When a document parses and contains a meta tag that targets the
  description field with a non-empty content, the description of the record is the content
  of the last such tag: each of them overwrites the field, whatever came before.
\<close>

theorem description_last_meta_wins:
  assumes "parse_document loads (pre @ StartTag ''meta'' as # post) = Inr p"
    and "description_meta as = Some c"
    and "\<not> list_ex sets_description post"
  shows "description p = c"
proof -
  from assms(1) obtain st where f: "feed loads (pre @ StartTag ''meta'' as # post) new_parser = Inr st"
    and p: "p = calculate_read_time st"
    unfolding parse_document_def
    by (cases "feed loads (pre @ StartTag ''meta'' as # post) new_parser") auto
  from f obtain st1 where f1: "feed loads pre new_parser = Inr st1"
    and f2: "feed loads (StartTag ''meta'' as # post) st1 = Inr st"
    by (cases "feed loads pre new_parser") (simp_all add: feed_append)
  from f2 obtain st2 where s: "handle_starttag ''meta'' as st1 = Inr st2"
    and f3: "feed loads post st2 = Inr st"
    by (cases "handle_starttag ''meta'' as st1") (simp_all add: handle_event_def)
  have "description st2 = c"
    using handle_starttag_description [OF s] assms(2) by simp
  with feed_other [OF f3 assms(3)] have "description st = c" by simp
  then show ?thesis unfolding p by (simp add: calculate_read_time_def)
qed

theorem description_last_meta_wins_witness:
  "parse_document sample_loads two_descriptions_doc
     = Inr (new_parser\<lparr>description := ''second summary'', current_tag := Some ''meta'',
              tag_stack := [''meta'', ''meta''],
              rdfa_data := [\<lparr>rdfa_property = Some ''og:description'', rdfa_typeof = Some [],
                             rdfa_content = Some ''second summary''\<rparr>]\<rparr>)
   \<and> description_meta second_description_attrs = Some ''second summary''"
proof -
  let ?p = "new_parser\<lparr>description := ''second summary'', current_tag := Some ''meta'',
              tag_stack := [''meta'', ''meta''],
              rdfa_data := [\<lparr>rdfa_property = Some ''og:description'', rdfa_typeof = Some [],
                             rdfa_content = Some ''second summary''\<rparr>]\<rparr>"
  have a: "parse_document sample_loads
             ([StartTag ''meta'' first_description_attrs]
                @ StartTag ''meta'' second_description_attrs # []) = Inr ?p"
    by code_simp
  have b: "description_meta second_description_attrs = Some ''second summary''" by code_simp
  have c: "\<not> list_ex sets_description []" by simp
  have d: "two_descriptions_doc =
      [StartTag ''meta'' first_description_attrs] @ StartTag ''meta'' second_description_attrs # []"
    by (simp add: two_descriptions_doc_def)
  from description_last_meta_wins [OF a b c] a b d show ?thesis by simp
qed

theorem description_first_meta_counterexample:
  "description_meta first_description_attrs = Some ''first summary''
   \<and> description_meta second_description_attrs = Some ''second summary''
   \<and> parse_document sample_loads
       [StartTag ''meta'' first_description_attrs, StartTag ''meta'' second_description_attrs]
     = Inr (new_parser\<lparr>description := ''second summary'', current_tag := Some ''meta'',
              tag_stack := [''meta'', ''meta''],
              rdfa_data := [\<lparr>rdfa_property = Some ''og:description'', rdfa_typeof = Some [],
                             rdfa_content = Some ''second summary''\<rparr>]\<rparr>)"
  by code_simp

section \<open>Properties of the hash embedding\<close>

lemma round_half_even_of_int: "round_half_even (of_int k) = k"
  by (simp add: round_half_even_def)

lemma py_round_hundredths: "py_round (of_int k / 100) 3 = of_int k / 100"
proof -
  have "(of_int k / 100 :: rat) * 10 ^ 3 = of_int (10 * k)" by simp
  then have "py_round (of_int k / 100) 3 = of_int (10 * k) / 10 ^ 3"
    unfolding py_round_def by (simp only: round_half_even_of_int)
  then show ?thesis by simp
qed

lemma embedding_value_eq:
  "embedding_value h i = (of_int (int ((h div 2 ^ (8 * i)) mod 200)) - 100) / 100"
proof -
  have "embedding_value h i = of_int (int (drop_bit (i * 8) h mod 200) - 100) / 100"
    unfolding embedding_value_def by (rule py_round_hundredths)
  then show ?thesis by (simp add: drop_bit_eq_div mult.commute)
qed

lemma embedding_value_range: "- 1 \<le> embedding_value h i \<and> embedding_value h i \<le> 1"
proof -
  have "(h div 2 ^ (8 * i)) mod 200 < 200" by simp
  then have "(of_int (int ((h div 2 ^ (8 * i)) mod 200)) :: rat) \<le> 200"
    by (metis less_imp_le of_int_of_nat_eq of_nat_le_iff of_nat_numeral)
  moreover have "(0 :: rat) \<le> of_int (int ((h div 2 ^ (8 * i)) mod 200))" by simp
  ultimately show ?thesis unfolding embedding_value_eq by simp
qed

text \<open>
  Claim C7. For the empty text the embedding is the all-zero vector of the configured length.
  For any text the vector has that length; for a non-empty text its component \<open>i\<close> is
  the digest shifted right by \<open>8 * i\<close> bits, taken modulo 200, minus 100, over 100 (a
  number of hundredths, which rounding to three decimals leaves as it is); every component
  lies between -1 and 1; the result is a function of the text and the digest; and the
  provider of \<^verbatim>\<open>embedding_integration.py\<close> computes the same vector.
\<close>

theorem hash_embedding_properties:
  "generate_simple_embedding md5 [] dimensions = replicate dimensions 0
   \<and> length (generate_simple_embedding md5 text dimensions) = dimensions
   \<and> (text \<noteq> [] \<longrightarrow> (\<forall>i < dimensions.
         generate_simple_embedding md5 text dimensions ! i
           = (of_int (int ((md5 text div 2 ^ (8 * i)) mod 200)) - 100) / 100))
   \<and> (\<forall>x \<in> set (generate_simple_embedding md5 text dimensions). - 1 \<le> x \<and> x \<le> 1)
   \<and> embed md5 dimensions text = generate_simple_embedding md5 text dimensions"
proof -
  have "\<forall>x \<in> set (generate_simple_embedding md5 text dimensions). - 1 \<le> x \<and> x \<le> 1"
    unfolding generate_simple_embedding_def using embedding_value_range by auto
  then show ?thesis
    by (simp add: generate_simple_embedding_def embed_def embedding_value_eq)
qed

theorem hash_embedding_properties_witness:
  "generate_simple_embedding abc_md5 ''abc'' 16
     = [70 / 100, 51 / 100, 29 / 100, 84 / 100, 49 / 100, - 21 / 100, - 14 / 100, - 94 / 100,
        - 68 / 100, 51 / 100, 62 / 100, - 8 / 100, - 28 / 100, 20 / 100, - 35 / 100, 44 / 100]
   \<and> generate_simple_embedding abc_md5 [] 16 = replicate 16 0
   \<and> embed abc_md5 16 ''abc'' = generate_simple_embedding abc_md5 ''abc'' 16"
proof -
  have u: "[0..<16] = [0,1,2,3,4,5,6,7,8,9,10,11,12,13,14,15::nat]"
    by (simp add: upt_rec)
  have a: "generate_simple_embedding abc_md5 ''abc'' 16
     = [70 / 100, 51 / 100, 29 / 100, 84 / 100, 49 / 100, - 21 / 100, - 14 / 100, - 94 / 100,
        - 68 / 100, 51 / 100, 62 / 100, - 8 / 100, - 28 / 100, 20 / 100, - 35 / 100, 44 / 100]"
    unfolding generate_simple_embedding_def u
    by (simp add: embedding_value_eq abc_md5_def)
  from hash_embedding_properties [of abc_md5 16 "''abc''"] a show ?thesis by simp
qed

section \<open>Properties of the record compressor\<close>

text \<open>
  Claim C8, as amended. In every page summary the title is cut to at most 100 characters and
  the description to at most 200, exactly 200 when the input is longer. The key \<^verbatim>\<open>l\<close>
  is present if and only if the language is a non-empty string other than \<^verbatim>\<open>en\<close>;
  \<^verbatim>\<open>a\<close> if and only if the author is non-empty; \<^verbatim>\<open>sd\<close> if and only if the page has
  structured data; \<^verbatim>\<open>cb\<close> if and only if \<^verbatim>\<open>code_blocks_count\<close> is positive;
  \<^verbatim>\<open>h1\<close> if and only if there is an h1 heading. A key that is present holds the
  non-empty author, the non-empty language, 1, the positive count, and the first h1
  heading cut to 100 characters, which is non-empty when that heading is.
\<close>

theorem compress_page_fields:
  "c_ti (compress_page pg) = take 100 (get_or (page_title pg) [])
   \<and> length (c_ti (compress_page pg)) \<le> 100
   \<and> c_d (compress_page pg) = take 200 (get_or (page_description pg) [])
   \<and> length (c_d (compress_page pg)) \<le> 200
   \<and> (200 < length (get_or (page_description pg) []) \<longrightarrow> length (c_d (compress_page pg)) = 200)
   \<and> (c_l (compress_page pg) \<noteq> None \<longleftrightarrow>
        (\<exists>lang. page_language pg = Some (Some lang) \<and> lang \<noteq> [] \<and> lang \<noteq> ''en''))
   \<and> (\<forall>lang. c_l (compress_page pg) = Some lang \<longrightarrow>
        page_language pg = Some (Some lang) \<and> lang \<noteq> [])
   \<and> (c_a (compress_page pg) \<noteq> None \<longleftrightarrow> (\<exists>a. page_author pg = Some a \<and> a \<noteq> []))
   \<and> (\<forall>a. c_a (compress_page pg) = Some a \<longrightarrow> page_author pg = Some a \<and> a \<noteq> [])
   \<and> (c_sd (compress_page pg) \<noteq> None \<longleftrightarrow> page_has_structured_data pg = Some True)
   \<and> (\<forall>n. c_sd (compress_page pg) = Some n \<longrightarrow> n = 1)
   \<and> (c_cb (compress_page pg) \<noteq> None \<longleftrightarrow> 0 < get_or (page_code_blocks_count pg) 0)
   \<and> (\<forall>n. c_cb (compress_page pg) = Some n \<longrightarrow> page_code_blocks_count pg = Some n \<and> 0 < n)
   \<and> (c_h1 (compress_page pg) \<noteq> None \<longleftrightarrow>
        heading_get (get_or (page_headings pg) []) ''h1'' \<noteq> [])
   \<and> (\<forall>h. c_h1 (compress_page pg) = Some h \<longrightarrow>
        h = take 100 (hd (heading_get (get_or (page_headings pg) []) ''h1''))
        \<and> (hd (heading_get (get_or (page_headings pg) []) ''h1'') \<noteq> [] \<longrightarrow> h \<noteq> []))"
proof -
  have l: "(c_l (compress_page pg) \<noteq> None \<longleftrightarrow>
        (\<exists>lang. page_language pg = Some (Some lang) \<and> lang \<noteq> [] \<and> lang \<noteq> ''en''))
     \<and> (\<forall>lang. c_l (compress_page pg) = Some lang \<longrightarrow>
        page_language pg = Some (Some lang) \<and> lang \<noteq> [])"
    by (simp add: compress_page_def split: option.split)
  have a: "(c_a (compress_page pg) \<noteq> None \<longleftrightarrow> (\<exists>a. page_author pg = Some a \<and> a \<noteq> []))
     \<and> (\<forall>a. c_a (compress_page pg) = Some a \<longrightarrow> page_author pg = Some a \<and> a \<noteq> [])"
    by (simp add: compress_page_def split: option.split)
  have sd: "(c_sd (compress_page pg) \<noteq> None \<longleftrightarrow> page_has_structured_data pg = Some True)
     \<and> (\<forall>n. c_sd (compress_page pg) = Some n \<longrightarrow> n = 1)"
    by (simp add: compress_page_def)
  have cb: "(c_cb (compress_page pg) \<noteq> None \<longleftrightarrow> 0 < get_or (page_code_blocks_count pg) 0)
     \<and> (\<forall>n. c_cb (compress_page pg) = Some n \<longrightarrow> page_code_blocks_count pg = Some n \<and> 0 < n)"
    by (auto simp: compress_page_def get_or_def Let_def split: option.split)
  have h1: "(c_h1 (compress_page pg) \<noteq> None \<longleftrightarrow>
        heading_get (get_or (page_headings pg) []) ''h1'' \<noteq> [])
     \<and> (\<forall>h. c_h1 (compress_page pg) = Some h \<longrightarrow>
        h = take 100 (hd (heading_get (get_or (page_headings pg) []) ''h1''))
        \<and> (hd (heading_get (get_or (page_headings pg) []) ''h1'') \<noteq> [] \<longrightarrow> h \<noteq> []))"
    by (auto simp: compress_page_def heading_get_def split: option.split list.split)
  have t: "c_ti (compress_page pg) = take 100 (get_or (page_title pg) [])
     \<and> length (c_ti (compress_page pg)) \<le> 100
     \<and> c_d (compress_page pg) = take 200 (get_or (page_description pg) [])
     \<and> length (c_d (compress_page pg)) \<le> 200
     \<and> (200 < length (get_or (page_description pg) []) \<longrightarrow> length (c_d (compress_page pg)) = 200)"
    by (simp add: compress_page_def)
  from t l a sd cb h1 show ?thesis by blast
qed

theorem compress_page_fields_witness:
  "compress_page french_page =
     \<lparr>c_id = ''unknown'', c_u = [], c_t = JStr ''WebPage'', c_ti = ''Bonjour'',
      c_d = replicate 200 CHR ''x'', c_kw = [], c_wc = 0, c_rt = 0, c_emb = replicate 16 0,
      c_a = Some ''Ada'', c_l = Some ''fr'', c_sd = Some 1, c_cb = Some 2,
      c_h1 = Some ''Bonjour''\<rparr>
   \<and> 200 < length (get_or (page_description french_page) [])
   \<and> length (c_d (compress_page french_page)) = 200
   \<and> c_l (compress_page empty_page) = None"
proof -
  have a: "compress_page french_page =
     \<lparr>c_id = ''unknown'', c_u = [], c_t = JStr ''WebPage'', c_ti = ''Bonjour'',
      c_d = replicate 200 CHR ''x'', c_kw = [], c_wc = 0, c_rt = 0, c_emb = replicate 16 0,
      c_a = Some ''Ada'', c_l = Some ''fr'', c_sd = Some 1, c_cb = Some 2,
      c_h1 = Some ''Bonjour''\<rparr>"
    by (simp add: compress_page_def french_page_def empty_page_def get_or_def)
  have b: "200 < length (get_or (page_description french_page) [])"
    by (simp add: french_page_def empty_page_def get_or_def)
  have c: "c_l (compress_page empty_page) = None"
    by (simp add: compress_page_def empty_page_def)
  from compress_page_fields [of french_page] a b c show ?thesis by simp
qed

theorem language_key_counterexample:
  "parse_document sample_loads [StartTag ''html'' [(''lang'', Some [])]]
     = Inr (new_parser\<lparr>language := Some [], current_tag := Some ''html'',
              tag_stack := [''html'']\<rparr>)
   \<and> page_language blank_language_page = Some (Some [])
   \<and> [] \<noteq> ''en''
   \<and> c_l (compress_page blank_language_page) = None"
  by code_simp

section \<open>When entries are appended\<close>













section \<open>Properties of the keyword extractor\<close>















end
